theory Spec2Isabelle
  imports Main "HOL-Library.Sublist"
begin

section \<open>BSL-postgres: the SQL adapter of \<^verbatim>\<open>src/bsl_psql/server.py\<close>\<close>

text \<open>
  The module has three classes: \<^verbatim>\<open>BSLSemanticCatalog\<close> (a dictionary of semantic
  tables), \<^verbatim>\<open>BSLConnection\<close> (the handlers the protocol engine calls) and
  \<^verbatim>\<open>BSLPostgresServer\<close> (the composition root). Three libraries are outside the
  repository: the SQL parser (sqlglot), the semantic tables (boring_semantic_layer) and the
  wire protocol engine (riffq). What the handlers read of their objects is modelled as
  data; what they call on them is taken as a parameter.
\<close>

subsection \<open>Errors\<close>

text \<open>
  Every exception that can leave the \<^verbatim>\<open>try\<close> block of \<^verbatim>\<open>handle_query\<close>. The three
  raised by the handler itself are plain \<^verbatim>\<open>Exception\<close>s that differ in their message
  (lines 90, 97, 125); the constructors carry what the message is built from. The others
  come from the libraries and carry their message.
\<close>

datatype error =
    ParseError string
  | NoTableSpecified
  | TableNotFound string
  | AttributeError string
  | ColumnNotFound string string
  | ExecutionError string
  | SendError string
  | TypeError string

text \<open>\<^verbatim>\<open>str(e)\<close>: the message handed to the callback (line 145).\<close>

fun str :: "error \<Rightarrow> string" where
  "str (ParseError m) = m"
| "str NoTableSpecified = ''No table specified in query''"
| "str (TableNotFound table_name) =
     ''Table '' @ [CHR 0x27] @ table_name @ [CHR 0x27] @ '' not found in semantic catalog''"
| "str (AttributeError m) = m"
| "str (ColumnNotFound col table_name) =
     ''Column '' @ [CHR 0x27] @ col @ [CHR 0x27] @ '' not found in semantic table ''
       @ [CHR 0x27] @ table_name @ [CHR 0x27]"
| "str (ExecutionError m) = m"
| "str (SendError m) = m"
| "str (TypeError m) = m"

subsection \<open>Semantic tables and the catalog\<close>

text \<open>
  A \<^verbatim>\<open>SemanticTable\<close> as the handler uses it: membership in \<^verbatim>\<open>dimensions\<close> and
  \<^verbatim>\<open>measures\<close> (lines 120, 122), and the chain
  \<^verbatim>\<open>group_by(*group_by_cols).aggregate(*measures).execute()\<close> (lines 132, 137), which
  yields a batch or raises. The batch type \<open>'b\<close> is left open.
\<close>

record 'b SemanticTable =
  dimensions :: "string list"
  measures_tbl :: "string list"
  execute :: "string list \<Rightarrow> string list \<Rightarrow> error + 'b"

text \<open>\<^verbatim>\<open>BSLSemanticCatalog\<close>: \<^verbatim>\<open>self.tables\<close> is a dictionary from names to tables.\<close>

record 'b BSLSemanticCatalog =
  tables :: "string \<rightharpoonup> 'b SemanticTable"

definition BSLSemanticCatalog_init :: "'b BSLSemanticCatalog" where
  "BSLSemanticCatalog_init = \<lparr>tables = Map.empty\<rparr>"

text \<open>\<^verbatim>\<open>self.tables[name] = semantic_table\<close> (line 48).\<close>

definition register_table ::
  "'b BSLSemanticCatalog \<Rightarrow> string \<Rightarrow> 'b SemanticTable \<Rightarrow> 'b BSLSemanticCatalog" where
  "register_table self table_name semantic_table =
     self\<lparr>tables := (tables self)(table_name \<mapsto> semantic_table)\<rparr>"

text \<open>\<^verbatim>\<open>self.tables.get(name)\<close> (line 52).\<close>

definition get_table :: "'b BSLSemanticCatalog \<Rightarrow> string \<Rightarrow> 'b SemanticTable option" where
  "get_table self table_name = tables self table_name"

subsection \<open>The parsed statement\<close>

text \<open>
  The syntax tree nodes of the parser, as far as the handler tells them apart:
  \<^verbatim>\<open>exp.Identifier\<close> (a bare name), \<^verbatim>\<open>exp.Column\<close> (a column reference, which is how the
  parser represents a name in a select list or a GROUP BY list: an Identifier wrapped in
  a Column), \<^verbatim>\<open>exp.Alias\<close> (an expression with \<^verbatim>\<open>AS alias\<close>), and any other node, which
  carries the text its \<^verbatim>\<open>.name\<close> property returns.
\<close>

datatype expression =
    Identifier string
  | Column string
  | Alias expression string
  | Other string

text \<open>
  The \<^verbatim>\<open>.name\<close> property (line 105, line 113). The handler reads it on nodes that are
  not an Alias; the last equation only makes the function total.
\<close>

fun name :: "expression \<Rightarrow> string" where
  "name (Identifier s) = s"
| "name (Column s) = s"
| "name (Other s) = s"
| "name (Alias e a) = name e"

text \<open>The \<^verbatim>\<open>.alias\<close> property, read on Alias nodes only (line 103).\<close>

fun alias_name :: "expression \<Rightarrow> string" where
  "alias_name (Alias e a) = a"
| "alias_name e = []"

fun is_Alias :: "expression \<Rightarrow> bool" where
  "is_Alias (Alias e a) = True"
| "is_Alias e = False"

fun is_Identifier :: "expression \<Rightarrow> bool" where
  "is_Identifier (Identifier s) = True"
| "is_Identifier e = False"

text \<open>
  What the handler reads of the tree returned by \<^verbatim>\<open>sqlglot.parse_one\<close>:
  \<^item> \<open>table_node\<close>: the name of the first Table node, \<^verbatim>\<open>ast.find(exp.Table)\<close>, if any;
  \<^item> \<open>selects\<close>: \<^verbatim>\<open>ast.selects\<close>; a statement that is not a query has no such
    attribute and reading it raises;
  \<^item> \<open>group_node\<close>: the expressions of \<^verbatim>\<open>ast.args.get("group")\<close>, if the statement
    has a GROUP BY clause.
\<close>

record ast =
  table_node :: "string option"
  selects :: "expression list option"
  group_node :: "expression list option"

subsection \<open>Translation: lines 87 to 129 of \<^verbatim>\<open>handle_query\<close>\<close>

text \<open>Lines 100 to 105: the alias of an Alias node, the name of any other node.\<close>

fun select_cols :: "expression list \<Rightarrow> string list" where
  "select_cols [] = []"
| "select_cols (select_expr # rest) =
     (if is_Alias select_expr then alias_name select_expr else name select_expr) # select_cols rest"

text \<open>Lines 108 to 113: only Identifier nodes of the GROUP BY list are kept.\<close>

fun identifier_names :: "expression list \<Rightarrow> string list" where
  "identifier_names [] = []"
| "identifier_names (expr # rest) =
     (if is_Identifier expr then name expr # identifier_names rest else identifier_names rest)"

definition extract_group_by :: "ast \<Rightarrow> string list" where
  "extract_group_by a =
     (case group_node a of None \<Rightarrow> [] | Some exprs \<Rightarrow> identifier_names exprs)"

text \<open>
  Lines 116 to 125: the loop over \<^verbatim>\<open>select_cols\<close>, with the two lists it appends to as
  accumulators. The first column in neither collection raises.
\<close>

fun classify ::
  "'b SemanticTable \<Rightarrow> string \<Rightarrow> string list \<Rightarrow> string list \<Rightarrow> string list
    \<Rightarrow> error + (string list \<times> string list)" where
  "classify semantic_table table_name [] ds ms = Inr (ds, ms)"
| "classify semantic_table table_name (col # cols) ds ms =
     (if col \<in> set (dimensions semantic_table)
        then classify semantic_table table_name cols (ds @ [col]) ms
      else if col \<in> set (measures_tbl semantic_table)
        then classify semantic_table table_name cols ds (ms @ [col])
      else Inl (ColumnNotFound col table_name))"

text \<open>
  The values the handler has in hand at line 131: \<^verbatim>\<open>table_name\<close> and
  \<^verbatim>\<open>semantic_table\<close>, \<^verbatim>\<open>dimensions\<close>, \<^verbatim>\<open>measures\<close> and \<^verbatim>\<open>group_by_cols\<close>.
\<close>

record 'b TranslatedQuery =
  table :: string
  semantic_table :: "'b SemanticTable"
  selectedDimensions :: "string list"
  selectedMeasures :: "string list"
  groupBy :: "string list"

definition translate :: "'b BSLSemanticCatalog \<Rightarrow> ast \<Rightarrow> error + 'b TranslatedQuery" where
  "translate cat a =
     (case table_node a of
        None \<Rightarrow> Inl NoTableSpecified
      | Some table_name \<Rightarrow>
          (case get_table cat table_name of
             None \<Rightarrow> Inl (TableNotFound table_name)
           | Some st \<Rightarrow>
               (case selects a of
                  None \<Rightarrow> Inl (AttributeError ''selects'')
                | Some exprs \<Rightarrow>
                    (case classify st table_name (select_cols exprs) [] [] of
                       Inl e \<Rightarrow> Inl e
                     | Inr (ds, ms) \<Rightarrow>
                         Inr \<lparr>table = table_name, semantic_table = st,
                              selectedDimensions = ds, selectedMeasures = ms,
                              groupBy = (if extract_group_by a = [] \<and> ds \<noteq> []
                                         then ds else extract_group_by a)\<rparr>))))"

subsection \<open>The connection handlers\<close>

text \<open>
  \<^verbatim>\<open>BSLConnection\<close> has one attribute, the catalog shared by all connections.
  No handler assigns an attribute of \<^verbatim>\<open>self\<close>, so the handlers take the connection
  and return none.
\<close>

record 'b BSLConnection =
  catalog :: "'b BSLSemanticCatalog"

text \<open>Line 67: \<^verbatim>\<open>callback(user == "user" and password == "secret")\<close>.\<close>

definition handle_auth ::
  "'b BSLConnection \<Rightarrow> string \<Rightarrow> string \<Rightarrow> string \<Rightarrow> string option \<Rightarrow> bool" where
  "handle_auth self user password host database \<longleftrightarrow> user = ''user'' \<and> password = ''secret''"

text \<open>
  The callback of \<^verbatim>\<open>handle_query\<close>: the completion callback of the protocol engine,
  the default of the signature (line 77, the builtin \<^verbatim>\<open>callable\<close>, which is true and
  takes one argument), or a missing callback (\<^verbatim>\<open>None\<close>), which the test of line 144
  skips.
\<close>

datatype callback = EngineCallback | DefaultCallable | NoCallback

text \<open>What a callback receives: a result, or \<^verbatim>\<open>(None, None, message)\<close>.\<close>

datatype 'b delivery = Batch 'b | ErrorMessage string

fun is_Batch :: "'b delivery \<Rightarrow> bool" where
  "is_Batch (Batch b) = True"
| "is_Batch d = False"

fun is_ErrorMessage :: "'b delivery \<Rightarrow> bool" where
  "is_ErrorMessage (ErrorMessage m) = True"
| "is_ErrorMessage d = False"

text \<open>
  What one call of \<^verbatim>\<open>handle_query\<close> does that its caller can see: the calls of the
  callback in order, the requests executed on semantic tables (table name, group-by
  columns, measures), and the exception that leaves the handler, if any.
\<close>

record 'b outcome =
  delivered :: "'b delivery list"
  executed :: "(string \<times> string list \<times> string list) list"
  raised :: "error option"

text \<open>
  Lines 144 and 145: \<^verbatim>\<open>if callback: callback(None, None, str(e))\<close>. The callback of the
  engine receives the message. The builtin \<^verbatim>\<open>callable\<close> is true, so it is called, and
  it refuses three arguments: nothing is delivered. A missing callback is not called.
\<close>

fun reported :: "callback \<Rightarrow> error \<Rightarrow> 'b delivery list" where
  "reported EngineCallback e = [ErrorMessage (str e)]"
| "reported DefaultCallable e = []"
| "reported NoCallback e = []"

text \<open>
  The exception that leaves the handler: the one caught, raised again at line 146, or the
  \<^verbatim>\<open>TypeError\<close> of calling the builtin \<^verbatim>\<open>callable\<close> with three arguments at line 145.
\<close>

fun reraised :: "callback \<Rightarrow> error \<Rightarrow> error" where
  "reraised EngineCallback e = e"
| "reraised DefaultCallable e = TypeError ''callable() takes exactly one argument (3 given)''"
| "reraised NoCallback e = e"

text \<open>
  Lines 142 to 146: the handler of every exception of the \<^verbatim>\<open>try\<close> block.
  \<open>ds\<close> and \<open>ex\<close> are what was delivered and executed before the exception.
\<close>

definition on_exception ::
  "callback \<Rightarrow> 'b delivery list \<Rightarrow> (string \<times> string list \<times> string list) list \<Rightarrow> error
    \<Rightarrow> 'b outcome" where
  "on_exception cb ds ex e =
     \<lparr>delivered = ds @ reported cb e, executed = ex, raised = Some (reraised cb e)\<rparr>"

text \<open>
  \<^verbatim>\<open>handle_query\<close>, lines 77 to 146. Two calls leave the repository and are parameters:
  \<^item> \<open>parse_one\<close> is \<^verbatim>\<open>sqlglot.parse_one\<close>: the tree of the statement, or the exception
    it raises;
  \<^item> \<open>send_reader\<close> is \<^verbatim>\<open>self.send_reader\<close>, inherited from the engine's base class:
    the calls of the callback it makes, and the exception it raises, if any.
  Logging is left out.
\<close>

definition handle_query ::
  "(string \<Rightarrow> error + ast) \<Rightarrow> ('b \<Rightarrow> callback \<Rightarrow> 'b delivery list \<times> error option)
    \<Rightarrow> 'b BSLConnection \<Rightarrow> string \<Rightarrow> callback \<Rightarrow> 'b outcome" where
  "handle_query parse_one send_reader self query cb =
     (case parse_one query of
        Inl e \<Rightarrow> on_exception cb [] [] e
      | Inr a \<Rightarrow>
          (case translate (catalog self) a of
             Inl e \<Rightarrow> on_exception cb [] [] e
           | Inr tq \<Rightarrow>
               (let request = (table tq, groupBy tq, selectedMeasures tq) in
                case execute (semantic_table tq) (groupBy tq) (selectedMeasures tq) of
                  Inl e \<Rightarrow> on_exception cb [] [request] e
                | Inr batch \<Rightarrow>
                    (case send_reader batch cb of
                       (ds, None) \<Rightarrow> \<lparr>delivered = ds, executed = [request], raised = None\<rparr>
                     | (ds, Some e) \<Rightarrow> on_exception cb ds [request] e))))"

subsection \<open>The server\<close>

text \<open>
  \<^verbatim>\<open>BSLPostgresServer.__init__\<close> (lines 154 to 166) stores its arguments;
  \<^verbatim>\<open>catalog or BSLSemanticCatalog()\<close> makes a fresh catalog when none is given.
\<close>

record 'b BSLPostgresServer =
  srv_catalog :: "'b BSLSemanticCatalog"
  srv_host :: string
  srv_port :: int
  srv_user :: "string option"
  srv_password :: "string option"

definition BSLPostgresServer_init ::
  "string \<Rightarrow> int \<Rightarrow> string option \<Rightarrow> string option \<Rightarrow> 'b BSLSemanticCatalog option
    \<Rightarrow> 'b BSLPostgresServer" where
  "BSLPostgresServer_init host port username password cat =
     \<lparr>srv_catalog = (case cat of Some c \<Rightarrow> c | None \<Rightarrow> BSLSemanticCatalog_init),
      srv_host = host, srv_port = port, srv_user = username, srv_password = password\<rparr>"

text \<open>Lines 168 to 175.\<close>

definition register_semantic_table ::
  "'b BSLPostgresServer \<Rightarrow> string \<Rightarrow> 'b SemanticTable \<Rightarrow> 'b BSLPostgresServer" where
  "register_semantic_table self table_name st =
     self\<lparr>srv_catalog := register_table (srv_catalog self) table_name st\<rparr>"

text \<open>
  \<^verbatim>\<open>serve\<close> (lines 177 to 193) sets \<^verbatim>\<open>BSLConnection.catalog = self.catalog\<close> and starts the
  engine on \<^verbatim>\<open>host:port\<close> with the connection class. This is the connection object the
  engine then calls the handlers on: nothing else of the server reaches it.
\<close>

definition serve :: "'b BSLPostgresServer \<Rightarrow> 'b BSLConnection" where
  "serve self = \<lparr>catalog = srv_catalog self\<rparr>"

subsection \<open>The sample tables of \<^verbatim>\<open>example_usage.py\<close>\<close>

text \<open>
  The dimensions and measures of the two tables registered by the example (lines 23 to
  58). Their backend is replaced by one that returns the request it was given.
\<close>

definition flights_table :: "(string list \<times> string list) SemanticTable" where
  "flights_table =
     \<lparr>dimensions = [''origin'', ''destination'', ''route''],
      measures_tbl = [''total_passengers'', ''avg_delay'', ''total_distance'', ''flight_count''],
      execute = (\<lambda>g m. Inr (g, m))\<rparr>"

definition sales_table :: "(string list \<times> string list) SemanticTable" where
  "sales_table =
     \<lparr>dimensions = [''product'', ''region''],
      measures_tbl = [''total_sales'', ''total_units'', ''avg_price''],
      execute = (\<lambda>g m. Inr (g, m))\<rparr>"

definition example_server :: "(string list \<times> string list) BSLPostgresServer" where
  "example_server =
     register_semantic_table
       (register_semantic_table
          (BSLPostgresServer_init ''localhost'' 5432 (Some ''postgres'') (Some ''postgres'') None)
          ''flights'' flights_table)
       ''sales'' sales_table"

definition example_catalog :: "(string list \<times> string list) BSLSemanticCatalog" where
  "example_catalog = srv_catalog example_server"

text \<open>
  The trees of the statements used below, as the parser builds them: every column
  reference, in the select list and in the GROUP BY list alike, is a Column node.
\<close>

definition select_origin_passengers :: ast where
  \<comment> \<open>\<^verbatim>\<open>SELECT origin, total_passengers FROM flights\<close>\<close>
  "select_origin_passengers =
     \<lparr>table_node = Some ''flights'',
      selects = Some [Column ''origin'', Column ''total_passengers''],
      group_node = None\<rparr>"

definition select_region_units_grouped :: ast where
  \<comment> \<open>\<^verbatim>\<open>SELECT region, total_units FROM sales GROUP BY region\<close>\<close>
  "select_region_units_grouped =
     \<lparr>table_node = Some ''sales'',
      selects = Some [Column ''region'', Column ''total_units''],
      group_node = Some [Column ''region'']\<rparr>"

definition select_two_dimensions_grouped :: ast where
  \<comment> \<open>\<^verbatim>\<open>SELECT origin, destination, total_passengers FROM flights GROUP BY origin\<close>\<close>
  "select_two_dimensions_grouped =
     \<lparr>table_node = Some ''flights'',
      selects = Some [Column ''origin'', Column ''destination'', Column ''total_passengers''],
      group_node = Some [Column ''origin'']\<rparr>"

definition select_unknown_column :: ast where
  \<comment> \<open>\<^verbatim>\<open>SELECT origin, bogus, total_passengers FROM flights\<close>\<close>
  "select_unknown_column =
     \<lparr>table_node = Some ''flights'',
      selects = Some [Column ''origin'', Column ''bogus'', Column ''total_passengers''],
      group_node = None\<rparr>"

definition select_from_missing_table :: ast where
  \<comment> \<open>\<^verbatim>\<open>SELECT origin FROM nope\<close>\<close>
  "select_from_missing_table =
     \<lparr>table_node = Some ''nope'', selects = Some [Column ''origin''], group_node = None\<rparr>"

definition select_without_table :: ast where
  \<comment> \<open>\<^verbatim>\<open>SELECT 1\<close>\<close>
  "select_without_table =
     \<lparr>table_node = None, selects = Some [Other ''1''], group_node = None\<rparr>"

text \<open>
  A stand-in for the parser on these statements, and for a \<^verbatim>\<open>send_reader\<close> that hands
  every batch to the callback.
\<close>

definition example_parse_one :: "string \<Rightarrow> error + ast" where
  "example_parse_one query =
     (if query = ''SELECT origin, total_passengers FROM flights''
        then Inr select_origin_passengers
      else if query = ''SELECT region, total_units FROM sales GROUP BY region''
        then Inr select_region_units_grouped
      else if query = ''SELECT origin, destination, total_passengers FROM flights GROUP BY origin''
        then Inr select_two_dimensions_grouped
      else if query = ''SELECT origin, bogus, total_passengers FROM flights''
        then Inr select_unknown_column
      else if query = ''SELECT origin FROM nope''
        then Inr select_from_missing_table
      else if query = ''SELECT 1''
        then Inr select_without_table
      else Inl (ParseError ''Invalid expression / Unexpected token''))"

definition example_send_reader ::
  "'b \<Rightarrow> callback \<Rightarrow> 'b delivery list \<times> error option" where
  "example_send_reader batch cb = ([Batch batch], None)"


section \<open>Properties\<close>

subsection \<open>The classification loop and the translation as a whole\<close>

lemma classify_Inr_known:
  "classify st tn cols ds ms = Inr r \<Longrightarrow>
     set cols \<subseteq> set (dimensions st) \<union> set (measures_tbl st)"
  by (induction cols arbitrary: ds ms) (auto split: if_splits)

lemma classify_known:
  "set cols \<subseteq> set (dimensions st) \<union> set (measures_tbl st) \<Longrightarrow>
     classify st tn cols ds ms =
       Inr (ds @ filter (\<lambda>c. c \<in> set (dimensions st)) cols,
            ms @ filter (\<lambda>c. c \<notin> set (dimensions st) \<and> c \<in> set (measures_tbl st)) cols)"
  by (induction cols arbitrary: ds ms) auto

lemma classify_Inr:
  assumes "classify st tn cols ds ms = Inr (ds', ms')"
  shows "ds' = ds @ filter (\<lambda>c. c \<in> set (dimensions st)) cols"
    and "ms' = ms @ filter (\<lambda>c. c \<notin> set (dimensions st) \<and> c \<in> set (measures_tbl st)) cols"
proof -
  have "set cols \<subseteq> set (dimensions st) \<union> set (measures_tbl st)"
    using assms by (rule classify_Inr_known)
  from classify_known [OF this, of tn ds ms] assms
  show "ds' = ds @ filter (\<lambda>c. c \<in> set (dimensions st)) cols"
    and "ms' = ms @ filter (\<lambda>c. c \<notin> set (dimensions st) \<and> c \<in> set (measures_tbl st)) cols"
    by simp_all
qed

lemma classify_first_unknown:
  "set pre \<subseteq> set (dimensions st) \<union> set (measures_tbl st) \<Longrightarrow>
   col \<notin> set (dimensions st) \<Longrightarrow> col \<notin> set (measures_tbl st) \<Longrightarrow>
     classify st tn (pre @ col # post) ds ms = Inl (ColumnNotFound col tn)"
  by (induction pre arbitrary: ds ms) auto

lemma translate_ok:
  assumes "table_node a = Some tn" and "get_table cat tn = Some st"
    and "selects a = Some exprs"
    and "set (select_cols exprs) \<subseteq> set (dimensions st) \<union> set (measures_tbl st)"
  shows "translate cat a =
     Inr \<lparr>table = tn, semantic_table = st,
          selectedDimensions = filter (\<lambda>c. c \<in> set (dimensions st)) (select_cols exprs),
          selectedMeasures =
            filter (\<lambda>c. c \<notin> set (dimensions st) \<and> c \<in> set (measures_tbl st))
              (select_cols exprs),
          groupBy =
            (if extract_group_by a = []
                \<and> filter (\<lambda>c. c \<in> set (dimensions st)) (select_cols exprs) \<noteq> []
             then filter (\<lambda>c. c \<in> set (dimensions st)) (select_cols exprs)
             else extract_group_by a)\<rparr>"
  using assms by (simp add: translate_def classify_known)

lemma translate_Inr:
  assumes "translate cat a = Inr tq"
  shows "\<exists>exprs.
    table_node a = Some (table tq) \<and>
    get_table cat (table tq) = Some (semantic_table tq) \<and>
    selects a = Some exprs \<and>
    set (select_cols exprs)
      \<subseteq> set (dimensions (semantic_table tq)) \<union> set (measures_tbl (semantic_table tq)) \<and>
    selectedDimensions tq =
       filter (\<lambda>c. c \<in> set (dimensions (semantic_table tq))) (select_cols exprs) \<and>
    selectedMeasures tq =
       filter (\<lambda>c. c \<notin> set (dimensions (semantic_table tq))
                  \<and> c \<in> set (measures_tbl (semantic_table tq))) (select_cols exprs) \<and>
    groupBy tq = (if extract_group_by a = [] \<and> selectedDimensions tq \<noteq> []
                   then selectedDimensions tq else extract_group_by a)"
proof -
  from assms obtain tn where tn: "table_node a = Some tn"
    by (auto simp: translate_def split: option.splits)
  from assms tn obtain st where st: "get_table cat tn = Some st"
    by (auto simp: translate_def split: option.splits)
  from assms tn st obtain exprs where ex: "selects a = Some exprs"
    by (auto simp: translate_def split: option.splits)
  from assms tn st ex obtain r where r: "classify st tn (select_cols exprs) [] [] = Inr r"
    by (auto simp: translate_def split: sum.splits)
  have known: "set (select_cols exprs) \<subseteq> set (dimensions st) \<union> set (measures_tbl st)"
    using r by (rule classify_Inr_known)
  from translate_ok [OF tn st ex known] assms
  show ?thesis using tn st ex known by auto
qed

lemma select_cols_append: "select_cols (xs @ ys) = select_cols xs @ select_cols ys"
  by (induction xs) auto

lemma select_cols_map:
  "select_cols exprs =
     map (\<lambda>e. case e of Alias u al \<Rightarrow> al | Identifier s \<Rightarrow> s | Column s \<Rightarrow> s | Other s \<Rightarrow> s) exprs"
proof (induction exprs)
  case Nil
  show ?case by simp
next
  case (Cons e exprs)
  then show ?case by (cases e) simp_all
qed

lemma translate_select_cols_cong:
  "select_cols es = select_cols es' \<Longrightarrow>
     translate cat (a\<lparr>selects := Some es\<rparr>) = translate cat (a\<lparr>selects := Some es'\<rparr>)"
  by (auto simp: translate_def extract_group_by_def split: option.splits sum.splits)

lemma handle_query_translate_error:
  assumes "parse_one query = Inr a" and "translate (catalog self) a = Inl e"
  shows "handle_query parse_one send_reader self query cb =
     \<lparr>delivered = reported cb e,
      executed = [], raised = Some (reraised cb e)\<rparr>"
  using assms by (simp add: handle_query_def on_exception_def)

lemma translate_no_table:
  "table_node a = None \<Longrightarrow> translate cat a = Inl NoTableSpecified"
  by (simp add: translate_def)

lemma translate_table_not_found:
  "table_node a = Some tn \<Longrightarrow> get_table cat tn = None \<Longrightarrow>
     translate cat a = Inl (TableNotFound tn)"
  by (simp add: translate_def)

lemma translate_column_not_found:
  assumes "table_node a = Some tn" and "get_table cat tn = Some st"
    and "selects a = Some exprs" and "select_cols exprs = pre @ col # post"
    and "set pre \<subseteq> set (dimensions st) \<union> set (measures_tbl st)"
    and "col \<notin> set (dimensions st)" and "col \<notin> set (measures_tbl st)"
  shows "translate cat a = Inl (ColumnNotFound col tn)"
  using assms by (simp add: translate_def classify_first_unknown)

text \<open>Unfolding the sample server down to its dictionary.\<close>

lemmas example_defs =
  example_catalog_def example_server_def register_semantic_table_def
  BSLPostgresServer_init_def BSLSemanticCatalog_init_def register_table_def get_table_def
  flights_table_def sales_table_def serve_def

lemmas example_ast_defs =
  select_origin_passengers_def select_region_units_grouped_def
  select_two_dimensions_grouped_def select_unknown_column_def
  select_from_missing_table_def select_without_table_def

subsection \<open>The outcomes of the handler\<close>






subsection \<open>Grouping\<close>

text \<open>
  Claim C1. A statement without a GROUP BY clause that translates is grouped by the
  dimensions it selects: \<open>groupBy\<close> is the list of effective select names that are
  dimensions of the resolved table, in select order and with duplicates kept (it is a
  \<open>filter\<close> of the select list), and it is the list \<open>selectedDimensions\<close>. When no
  dimension is selected, \<open>groupBy\<close> is empty. The instance below is
  \<^verbatim>\<open>SELECT origin, total_passengers FROM flights\<close> on the sample catalog.
\<close>

theorem groupBy_inferred_without_group_clause:
  assumes "translate cat a = Inr tq" and "group_node a = None" and "selects a = Some exprs"
  shows "groupBy tq = filter (\<lambda>c. c \<in> set (dimensions (semantic_table tq))) (select_cols exprs)
       \<and> groupBy tq = selectedDimensions tq
       \<and> (selectedDimensions tq = [] \<longrightarrow> groupBy tq = [])"
proof -
  have "extract_group_by a = []"
    using assms(2) by (simp add: extract_group_by_def)
  with translate_Inr [OF assms(1)] assms(3) show ?thesis
    by auto
qed

theorem groupBy_inferred_without_group_clause_witness:
  "translate example_catalog select_origin_passengers =
     Inr \<lparr>table = ''flights'', semantic_table = flights_table,
          selectedDimensions = [''origin''], selectedMeasures = [''total_passengers''],
          groupBy = [''origin'']\<rparr>
   \<and> group_node select_origin_passengers = None
   \<and> selects select_origin_passengers = Some [Column ''origin'', Column ''total_passengers'']
   \<and> [''origin''] = filter (\<lambda>c. c \<in> set (dimensions flights_table))
                       (select_cols [Column ''origin'', Column ''total_passengers''])"
proof -
  have t: "translate example_catalog select_origin_passengers =
     Inr \<lparr>table = ''flights'', semantic_table = flights_table,
          selectedDimensions = [''origin''], selectedMeasures = [''total_passengers''],
          groupBy = [''origin'']\<rparr>"
    by (simp add: translate_def select_origin_passengers_def example_defs extract_group_by_def)
  have g: "group_node select_origin_passengers = None"
    by (simp add: select_origin_passengers_def)
  have s: "selects select_origin_passengers = Some [Column ''origin'', Column ''total_passengers'']"
    by (simp add: select_origin_passengers_def)
  from groupBy_inferred_without_group_clause [OF t g s] t g s show ?thesis
    by simp
qed

text \<open>
  A GROUP BY list of Identifier nodes is taken as it is.
\<close>

lemma identifier_names_Identifier: "identifier_names (map Identifier gs) = gs"
  by (induction gs) auto

lemma group_by_identifiers_verbatim:
  assumes "translate cat a = Inr tq" and "group_node a = Some (map Identifier gs)"
    and "gs \<noteq> []"
  shows "groupBy tq = gs"
proof -
  have "extract_group_by a = gs"
    using assms(2) by (simp add: extract_group_by_def identifier_names_Identifier)
  with translate_Inr [OF assms(1)] assms(3) show ?thesis
    by auto
qed

text \<open>
  Claim C2. A GROUP BY list is to be used verbatim, without inference. The parser gives
  the items of a GROUP BY list as Column nodes, and line 112 keeps Identifier nodes only:
  for \<^verbatim>\<open>SELECT origin, destination, total_passengers FROM flights GROUP BY origin\<close>
  the extracted list is empty, the grouping is inferred, and the request executed is
  grouped by \<^verbatim>\<open>origin\<close> and \<^verbatim>\<open>destination\<close>, not by \<^verbatim>\<open>origin\<close>.
\<close>

theorem explicit_group_by_columns_dropped:
  "example_parse_one ''SELECT origin, destination, total_passengers FROM flights GROUP BY origin''
     = Inr select_two_dimensions_grouped
   \<and> group_node select_two_dimensions_grouped = Some [Column ''origin'']
   \<and> extract_group_by select_two_dimensions_grouped = []
   \<and> translate example_catalog select_two_dimensions_grouped =
       Inr \<lparr>table = ''flights'', semantic_table = flights_table,
            selectedDimensions = [''origin'', ''destination''],
            selectedMeasures = [''total_passengers''],
            groupBy = [''origin'', ''destination'']\<rparr>
   \<and> executed (handle_query example_parse_one example_send_reader (serve example_server)
        ''SELECT origin, destination, total_passengers FROM flights GROUP BY origin''
        EngineCallback)
       = [(''flights'', [''origin'', ''destination''], [''total_passengers''])]"
  by (simp add: handle_query_def example_parse_one_def example_send_reader_def
        translate_def example_ast_defs example_defs extract_group_by_def)

subsection \<open>Well-formed translations\<close>

text \<open>
  Claim C9. A translation that succeeds is well-formed for the catalog: the table it names
  is registered with the descriptor it carries, every selected dimension is a dimension of
  that descriptor, every selected measure is one of its measures, and both lists are
  subsequences of the effective select names, in select order.
\<close>

theorem translated_query_well_formed:
  assumes "translate cat a = Inr tq" and "selects a = Some exprs"
  shows "set (selectedDimensions tq) \<subseteq> set (dimensions (semantic_table tq))
       \<and> set (selectedMeasures tq) \<subseteq> set (measures_tbl (semantic_table tq))
       \<and> subseq (selectedDimensions tq) (select_cols exprs)
       \<and> subseq (selectedMeasures tq) (select_cols exprs)
       \<and> get_table cat (table tq) = Some (semantic_table tq)"
  using translate_Inr [OF assms(1)] assms(2) by auto

theorem translated_query_well_formed_witness:
  "translate example_catalog select_region_units_grouped =
     Inr \<lparr>table = ''sales'', semantic_table = sales_table,
          selectedDimensions = [''region''], selectedMeasures = [''total_units''],
          groupBy = [''region'']\<rparr>
   \<and> selects select_region_units_grouped = Some [Column ''region'', Column ''total_units'']
   \<and> set [''region''] \<subseteq> set (dimensions sales_table)
   \<and> set [''total_units''] \<subseteq> set (measures_tbl sales_table)
   \<and> subseq [''region''] (select_cols [Column ''region'', Column ''total_units''])
   \<and> subseq [''total_units''] (select_cols [Column ''region'', Column ''total_units''])
   \<and> get_table example_catalog ''sales'' = Some sales_table"
proof -
  have t: "translate example_catalog select_region_units_grouped =
     Inr \<lparr>table = ''sales'', semantic_table = sales_table,
          selectedDimensions = [''region''], selectedMeasures = [''total_units''],
          groupBy = [''region'']\<rparr>"
    by (simp add: translate_def example_ast_defs example_defs extract_group_by_def)
  have s: "selects select_region_units_grouped = Some [Column ''region'', Column ''total_units'']"
    by (simp add: example_ast_defs)
  from translated_query_well_formed [OF t s] t s show ?thesis
    by simp
qed

subsection \<open>Effective names\<close>

text \<open>
  Claim C8. The effective name of a select item is its alias when the item is an Alias
  node, and otherwise the name of the node (for a column reference or an identifier, the
  identifier). What is under an alias is never looked at: exchanging it changes neither
  the effective names nor the translation.
\<close>

theorem effective_name_alias_else_name:
  "select_cols exprs =
     map (\<lambda>e. case e of Alias u al \<Rightarrow> al | Identifier s \<Rightarrow> s | Column s \<Rightarrow> s | Other s \<Rightarrow> s) exprs
   \<and> select_cols (pre @ Alias u al # post) = select_cols (pre @ Alias u' al # post)
   \<and> translate cat (a\<lparr>selects := Some (pre @ Alias u al # post)\<rparr>)
       = translate cat (a\<lparr>selects := Some (pre @ Alias u' al # post)\<rparr>)"
proof -
  have same: "select_cols (pre @ Alias u al # post) = select_cols (pre @ Alias u' al # post)"
    by (simp add: select_cols_append)
  from select_cols_map same translate_select_cols_cong [OF same] show ?thesis
    by blast
qed

subsection \<open>Failing translations\<close>

text \<open>
  Claim C5. A parsed statement without a table fails with \<open>NoTableSpecified\<close>, and one
  whose table is not in the catalog fails with \<open>TableNotFound\<close>. In both cases the
  translation is an error (no translated query exists) and the handler executes nothing.
  What it hands to the callback and what it raises depend on the callback (\<open>reported\<close>,
  \<open>reraised\<close>): with the callback of the engine, the message and the error itself.
\<close>

theorem missing_table_fails:
  assumes "parse_one query = Inr a"
  shows "(table_node a = None \<longrightarrow>
            translate (catalog self) a = Inl NoTableSpecified
          \<and> handle_query parse_one send_reader self query cb =
              \<lparr>delivered = reported cb NoTableSpecified,
               executed = [], raised = Some (reraised cb NoTableSpecified)\<rparr>)
       \<and> (table_node a = Some tn \<and> get_table (catalog self) tn = None \<longrightarrow>
            translate (catalog self) a = Inl (TableNotFound tn)
          \<and> handle_query parse_one send_reader self query cb =
              \<lparr>delivered = reported cb (TableNotFound tn),
               executed = [], raised = Some (reraised cb (TableNotFound tn))\<rparr>)"
proof (intro conjI impI)
  assume n: "table_node a = None"
  then show t: "translate (catalog self) a = Inl NoTableSpecified"
    by (rule translate_no_table)
  show "handle_query parse_one send_reader self query cb =
      \<lparr>delivered = reported cb NoTableSpecified,
       executed = [], raised = Some (reraised cb NoTableSpecified)\<rparr>"
    using assms t by (simp add: handle_query_translate_error)
next
  assume s: "table_node a = Some tn \<and> get_table (catalog self) tn = None"
  then show t: "translate (catalog self) a = Inl (TableNotFound tn)"
    by (simp add: translate_table_not_found)
  show "handle_query parse_one send_reader self query cb =
      \<lparr>delivered = reported cb (TableNotFound tn),
       executed = [], raised = Some (reraised cb (TableNotFound tn))\<rparr>"
    using assms t by (simp add: handle_query_translate_error)
qed

theorem missing_table_fails_witness:
  "example_parse_one ''SELECT 1'' = Inr select_without_table
   \<and> table_node select_without_table = None
   \<and> translate (catalog (serve example_server)) select_without_table = Inl NoTableSpecified
   \<and> handle_query example_parse_one example_send_reader (serve example_server)
        ''SELECT 1'' EngineCallback =
        \<lparr>delivered = [ErrorMessage ''No table specified in query''],
         executed = [], raised = Some NoTableSpecified\<rparr>
   \<and> example_parse_one ''SELECT origin FROM nope'' = Inr select_from_missing_table
   \<and> table_node select_from_missing_table = Some ''nope''
   \<and> get_table (catalog (serve example_server)) ''nope'' = None
   \<and> translate (catalog (serve example_server)) select_from_missing_table
        = Inl (TableNotFound ''nope'')
   \<and> handle_query example_parse_one example_send_reader (serve example_server)
        ''SELECT origin FROM nope'' EngineCallback =
        \<lparr>delivered = [ErrorMessage (str (TableNotFound ''nope''))],
         executed = [], raised = Some (TableNotFound ''nope'')\<rparr>"
proof -
  have p1: "example_parse_one ''SELECT 1'' = Inr select_without_table"
    by (simp add: example_parse_one_def)
  have n1: "table_node select_without_table = None"
    by (simp add: example_ast_defs)
  have p2: "example_parse_one ''SELECT origin FROM nope'' = Inr select_from_missing_table"
    by (simp add: example_parse_one_def)
  have n2: "table_node select_from_missing_table = Some ''nope''"
    by (simp add: example_ast_defs)
  have g2: "get_table (catalog (serve example_server)) ''nope'' = None"
    by (simp add: example_defs)
  from missing_table_fails
         [where parse_one = example_parse_one and query = "''SELECT 1''"
            and self = "serve example_server" and send_reader = example_send_reader
            and cb = EngineCallback, OF p1]
       missing_table_fails
         [where parse_one = example_parse_one and query = "''SELECT origin FROM nope''"
            and self = "serve example_server" and send_reader = example_send_reader
            and cb = EngineCallback and tn = "''nope''", OF p2]
       p1 n1 p2 n2 g2
  show ?thesis by simp
qed

text \<open>
  Claim C4. When some effective select name of a statement on a registered table is
  neither a dimension nor a measure of that table, the translation fails with
  \<open>ColumnNotFound\<close> for the first such name (every name before it is known), no
  translated query exists, and the handler executes nothing.
\<close>

theorem unknown_column_aborts:
  assumes "parse_one query = Inr a" and "table_node a = Some tn"
    and "get_table (catalog self) tn = Some st" and "selects a = Some exprs"
    and "\<not> set (select_cols exprs) \<subseteq> set (dimensions st) \<union> set (measures_tbl st)"
  shows "\<exists>pre col post.
      select_cols exprs = pre @ col # post
    \<and> set pre \<subseteq> set (dimensions st) \<union> set (measures_tbl st)
    \<and> col \<notin> set (dimensions st) \<and> col \<notin> set (measures_tbl st)
    \<and> translate (catalog self) a = Inl (ColumnNotFound col tn)
    \<and> handle_query parse_one send_reader self query cb =
        \<lparr>delivered = reported cb (ColumnNotFound col tn),
         executed = [], raised = Some (reraised cb (ColumnNotFound col tn))\<rparr>"
proof -
  let ?known = "set (dimensions st) \<union> set (measures_tbl st)"
  from assms(5) have "\<exists>c \<in> set (select_cols exprs). c \<notin> ?known"
    by blast
  from split_list_first_prop [where P = "\<lambda>c. c \<notin> ?known", OF this]
  obtain pre col post where split: "select_cols exprs = pre @ col # post"
    and col: "col \<notin> ?known" and pre: "\<forall>c \<in> set pre. \<not> c \<notin> ?known"
    by blast
  from pre have pre': "set pre \<subseteq> ?known" by blast
  from col have c1: "col \<notin> set (dimensions st)" and c2: "col \<notin> set (measures_tbl st)"
    by simp_all
  have t: "translate (catalog self) a = Inl (ColumnNotFound col tn)"
    by (rule translate_column_not_found [OF assms(2,3,4) split pre' c1 c2])
  have "handle_query parse_one send_reader self query cb =
        \<lparr>delivered = reported cb (ColumnNotFound col tn),
         executed = [], raised = Some (reraised cb (ColumnNotFound col tn))\<rparr>"
    using assms(1) t by (simp add: handle_query_translate_error)
  with split pre' c1 c2 t show ?thesis
    by blast
qed

theorem unknown_column_aborts_witness:
  "example_parse_one ''SELECT origin, bogus, total_passengers FROM flights''
     = Inr select_unknown_column
   \<and> table_node select_unknown_column = Some ''flights''
   \<and> get_table (catalog (serve example_server)) ''flights'' = Some flights_table
   \<and> selects select_unknown_column
       = Some [Column ''origin'', Column ''bogus'', Column ''total_passengers'']
   \<and> \<not> set (select_cols [Column ''origin'', Column ''bogus'', Column ''total_passengers''])
         \<subseteq> set (dimensions flights_table) \<union> set (measures_tbl flights_table)
   \<and> translate (catalog (serve example_server)) select_unknown_column
       = Inl (ColumnNotFound ''bogus'' ''flights'')
   \<and> (\<exists>pre col post.
        select_cols [Column ''origin'', Column ''bogus'', Column ''total_passengers'']
          = pre @ col # post
      \<and> set pre \<subseteq> set (dimensions flights_table) \<union> set (measures_tbl flights_table)
      \<and> col \<notin> set (dimensions flights_table) \<and> col \<notin> set (measures_tbl flights_table)
      \<and> translate (catalog (serve example_server)) select_unknown_column
          = Inl (ColumnNotFound col ''flights'')
      \<and> handle_query example_parse_one example_send_reader (serve example_server)
          ''SELECT origin, bogus, total_passengers FROM flights'' EngineCallback =
          \<lparr>delivered = [ErrorMessage (str (ColumnNotFound col ''flights''))],
           executed = [], raised = Some (ColumnNotFound col ''flights'')\<rparr>)"
proof -
  have p: "example_parse_one ''SELECT origin, bogus, total_passengers FROM flights''
     = Inr select_unknown_column"
    by (simp add: example_parse_one_def)
  have n: "table_node select_unknown_column = Some ''flights''"
    by (simp add: example_ast_defs)
  have g: "get_table (catalog (serve example_server)) ''flights'' = Some flights_table"
    by (simp add: example_defs)
  have s: "selects select_unknown_column
       = Some [Column ''origin'', Column ''bogus'', Column ''total_passengers'']"
    by (simp add: example_ast_defs)
  have u: "\<not> set (select_cols [Column ''origin'', Column ''bogus'', Column ''total_passengers''])
         \<subseteq> set (dimensions flights_table) \<union> set (measures_tbl flights_table)"
    by (simp add: flights_table_def)
  have t: "translate (catalog (serve example_server)) select_unknown_column
       = Inl (ColumnNotFound ''bogus'' ''flights'')"
    by (simp add: translate_def example_ast_defs example_defs)
  from unknown_column_aborts
         [where parse_one = example_parse_one
            and query = "''SELECT origin, bogus, total_passengers FROM flights''"
            and send_reader = example_send_reader and cb = EngineCallback, OF p n g s u]
       p n g s u t
  show ?thesis by simp
qed

subsection \<open>The catalog\<close>

text \<open>
  Claim C6. Registering twice under one name keeps the second table only: the lookup
  returns it, the catalog is the one that registering the second alone gives, every
  translation is the same as with that catalog, and a statement on that name is classified
  with the dimensions and measures of the second table. \<open>register_table\<close> is a total
  function into catalogs: it has no failure.
\<close>

theorem register_last_write_wins:
  "get_table (register_table (register_table cat n d1) n d2) n = Some d2
   \<and> register_table (register_table cat n d1) n d2 = register_table cat n d2
   \<and> translate (register_table (register_table cat n d1) n d2) a
       = translate (register_table cat n d2) a
   \<and> translate (register_table (register_table cat n d1) n d2)
        (a\<lparr>table_node := Some n, selects := Some exprs\<rparr>)
       = (case classify d2 n (select_cols exprs) [] [] of
            Inl e \<Rightarrow> Inl e
          | Inr (ds, ms) \<Rightarrow>
              Inr \<lparr>table = n, semantic_table = d2,
                   selectedDimensions = ds, selectedMeasures = ms,
                   groupBy = (if extract_group_by a = [] \<and> ds \<noteq> [] then ds
                              else extract_group_by a)\<rparr>)"
  by (simp add: register_table_def get_table_def translate_def extract_group_by_def
        split: sum.splits)

subsection \<open>Authentication\<close>

text \<open>
  Claim C10. \<open>handle_auth\<close> accepts exactly the pair \<^verbatim>\<open>user\<close> and \<^verbatim>\<open>secret\<close>, for every
  host and database and on every connection, in particular on the connections of a server
  built with any host, port, user name, password and catalog: the credentials given to
  the server are not accepted unless they are that pair.
\<close>

theorem handle_auth_fixed_credentials:
  "(handle_auth self user password host database \<longleftrightarrow> user = ''user'' \<and> password = ''secret'')
   \<and> (handle_auth (serve (BSLPostgresServer_init h p username pw cat)) user password host database
        \<longleftrightarrow> user = ''user'' \<and> password = ''secret'')
   \<and> \<not> handle_auth (serve (BSLPostgresServer_init h p (Some ''postgres'') (Some ''postgres'') cat))
          ''postgres'' ''postgres'' host database"
  by (simp add: handle_auth_def)

subsection \<open>What the caller of \<^verbatim>\<open>handle_query\<close> receives\<close>




end
